theory Spec2Isabelle
  imports Main "HOL-Library.Sublist"
begin

section \<open>Python strings\<close>

text \<open>
  A string is a list of characters, and a character is a code point below 256: the
  model covers text in that range. \<open>isspace\<close> is \<^verbatim>\<open>str.isspace\<close> on one character: the
  white space below 256 is tab to carriage return, the four separators U+001C to U+001F,
  the space, U+0085 and the no-break space U+00A0. \<^verbatim>\<open>str.strip()\<close> removes these
  characters from both ends.
\<close>

definition isspace :: "char \<Rightarrow> bool" where
  "isspace c = (c \<in> {CHR 0x09, CHR 0x0A, CHR 0x0B, CHR 0x0C, CHR 0x0D,
                      CHR 0x1C, CHR 0x1D, CHR 0x1E, CHR 0x1F, CHR '' '',
                      CHR 0x85, CHR 0xA0})"

definition lstrip :: "string \<Rightarrow> string" where
  "lstrip s = dropWhile isspace s"

definition rstrip :: "string \<Rightarrow> string" where
  "rstrip s = rev (dropWhile isspace (rev s))"

definition strip :: "string \<Rightarrow> string" where
  "strip s = rstrip (lstrip s)"

text \<open>
  \<^verbatim>\<open>str.upper()\<close>, character by character. Below 256 the cased letters are \<^verbatim>\<open>a\<close> to
  \<^verbatim>\<open>z\<close> and U+00E0 to U+00FE without the division sign U+00F7, each 32 above its
  capital, and the sharp s U+00DF, whose capital is the two letters \<^verbatim>\<open>SS\<close>, so the
  result can be longer than the string. The capitals of the micro sign U+00B5 and of
  U+00FF are U+039C and U+0178, which the model has no character for: it leaves these
  two letters as they are, and a string holding one of them is outside what \<open>upper\<close>
  describes.
\<close>

definition upper_char :: "char \<Rightarrow> string" where
  "upper_char c =
     (if c = CHR 0xDF then ''SS''
      else case map_of (zip (''abcdefghijklmnopqrstuvwxyz''
                @ [CHR 0xE0, CHR 0xE1, CHR 0xE2, CHR 0xE3, CHR 0xE4, CHR 0xE5, CHR 0xE6, CHR 0xE7,
                   CHR 0xE8, CHR 0xE9, CHR 0xEA, CHR 0xEB, CHR 0xEC, CHR 0xED, CHR 0xEE, CHR 0xEF,
                   CHR 0xF0, CHR 0xF1, CHR 0xF2, CHR 0xF3, CHR 0xF4, CHR 0xF5, CHR 0xF6,
                   CHR 0xF8, CHR 0xF9, CHR 0xFA, CHR 0xFB, CHR 0xFC, CHR 0xFD, CHR 0xFE])
              (''ABCDEFGHIJKLMNOPQRSTUVWXYZ''
                @ [CHR 0xC0, CHR 0xC1, CHR 0xC2, CHR 0xC3, CHR 0xC4, CHR 0xC5, CHR 0xC6, CHR 0xC7,
                   CHR 0xC8, CHR 0xC9, CHR 0xCA, CHR 0xCB, CHR 0xCC, CHR 0xCD, CHR 0xCE, CHR 0xCF,
                   CHR 0xD0, CHR 0xD1, CHR 0xD2, CHR 0xD3, CHR 0xD4, CHR 0xD5, CHR 0xD6,
                   CHR 0xD8, CHR 0xD9, CHR 0xDA, CHR 0xDB, CHR 0xDC, CHR 0xDD, CHR 0xDE])) c of
             None \<Rightarrow> [c] | Some d \<Rightarrow> [d])"

definition upper :: "string \<Rightarrow> string" where
  "upper s = concat (map upper_char s)"

text \<open>\<^verbatim>\<open>sep.join(parts)\<close>.\<close>

fun join :: "string \<Rightarrow> string list \<Rightarrow> string" where
  "join sep [] = []"
| "join sep [x] = x"
| "join sep (x # y # ys) = x @ sep @ join sep (y # ys)"

definition nl :: string where
  "nl = [CHR 0x0A]"

text \<open>
  \<^verbatim>\<open>str(n)\<close> for an integer: decimal digits, with a minus sign below zero. CPython
  refuses to convert an integer of more than 4300 digits and raises \<^verbatim>\<open>ValueError\<close>;
  \<open>str_int\<close> gives the text for every integer, so it is \<^verbatim>\<open>str\<close> on the integers
  below \<open>10 ^ 4300\<close> in magnitude. The one integer the program converts of its own is the
  overflow count of \<^verbatim>\<open>format_rows\<close>, which is at most the length of a list when
  \<open>max_rows\<close> is not negative; the integers of a JSON payload pass the same limit when
  \<^verbatim>\<open>json.loads\<close> reads them.
\<close>

definition digit_char :: "nat \<Rightarrow> char" where
  "digit_char d = ''0123456789'' ! d"

fun str_nat :: "nat \<Rightarrow> string" where
  "str_nat n = (if n < 10 then [digit_char n] else str_nat (n div 10) @ [digit_char (n mod 10)])"

definition str_int :: "int \<Rightarrow> string" where
  "str_int i = (if i < 0 then CHR ''-'' # str_nat (nat (- i)) else str_nat (nat i))"

section \<open>Values decoded from JSON\<close>

text \<open>
  What \<^verbatim>\<open>json.loads\<close> returns. A float is held as the text \<^verbatim>\<open>str()\<close> gives for it;
  a dict as its items in order.
\<close>

datatype pyval =
    PNone
  | PBool bool
  | PInt int
  | PFloat string
  | PStr string
  | PList "pyval list"
  | PDict "(string \<times> pyval) list"

text \<open>Truth value of an object, as \<^verbatim>\<open>or\<close>, \<^verbatim>\<open>not\<close> and \<^verbatim>\<open>if\<close> test it.\<close>

fun truthy :: "pyval \<Rightarrow> bool" where
  "truthy PNone = False"
| "truthy (PBool b) = b"
| "truthy (PInt i) = (i \<noteq> 0)"
| "truthy (PFloat s) = (s \<noteq> ''0.0'' \<and> s \<noteq> ''-0.0'')"
| "truthy (PStr s) = (s \<noteq> [])"
| "truthy (PList xs) = (xs \<noteq> [])"
| "truthy (PDict kvs) = (kvs \<noteq> [])"

definition py_or :: "pyval \<Rightarrow> pyval \<Rightarrow> pyval" where
  "py_or a b = (if truthy a then a else b)"

text \<open>\<^verbatim>\<open>d.get(k)\<close> on a dict: the value, or \<^verbatim>\<open>None\<close>.\<close>

definition dict_get :: "(string \<times> pyval) list \<Rightarrow> string \<Rightarrow> pyval" where
  "dict_get d k = (case map_of d k of None \<Rightarrow> PNone | Some v \<Rightarrow> v)"

text \<open>
  \<^verbatim>\<open>str(v)\<close>. The text of a list or of a dict is their \<^verbatim>\<open>repr\<close>, which the
  interpreter supplies: the parameter \<open>rp\<close>.
\<close>

fun py_str :: "(pyval \<Rightarrow> string) \<Rightarrow> pyval \<Rightarrow> string" where
  "py_str rp PNone = ''None''"
| "py_str rp (PBool b) = (if b then ''True'' else ''False'')"
| "py_str rp (PInt i) = str_int i"
| "py_str rp (PFloat s) = s"
| "py_str rp (PStr s) = s"
| "py_str rp (PList xs) = rp (PList xs)"
| "py_str rp (PDict kvs) = rp (PDict kvs)"

definition type_name :: "pyval \<Rightarrow> string" where
  "type_name v = (case v of PNone \<Rightarrow> ''NoneType'' | PBool _ \<Rightarrow> ''bool'' | PInt _ \<Rightarrow> ''int''
     | PFloat _ \<Rightarrow> ''float'' | PStr _ \<Rightarrow> ''str'' | PList _ \<Rightarrow> ''list'' | PDict _ \<Rightarrow> ''dict'')"

section \<open>Deal rows\<close>

record DealRow =
  exchange :: string
  deal_type :: string
  symbol :: string
  date :: string
  quantity :: string
  price :: string
  buyer :: string
  seller :: string

subsection \<open>\<^verbatim>\<open>filter_sme\<close>\<close>

definition filter_sme :: "DealRow list \<Rightarrow> string set \<Rightarrow> DealRow list" where
  "filter_sme rows symbols =
     (if symbols = {} then rows
      else [r \<leftarrow> rows. upper (symbol r) \<in> symbols])"

subsection \<open>\<^verbatim>\<open>format_rows\<close>\<close>

text \<open>
  \<^verbatim>\<open>rows[:n]\<close>: the first \<open>n\<close> elements, and for a negative \<open>n\<close> all but the last
  \<open>-n\<close>.
\<close>

definition slice_to :: "'a list \<Rightarrow> int \<Rightarrow> 'a list" where
  "slice_to xs n = (if 0 \<le> n then take (nat n) xs else take (nat (int (length xs) + n)) xs)"

definition format_line :: "DealRow \<Rightarrow> string" where
  "format_line r = ''- '' @ date r @ '' | '' @ deal_type r @ '' | '' @ symbol r
     @ '' | Qty: '' @ quantity r @ '' | Px: '' @ price r"

definition format_rows :: "string \<Rightarrow> DealRow list \<Rightarrow> int \<Rightarrow> string" where
  "format_rows title rows max_rows =
     (if rows = [] then title @ nl @ ''- No SME deals found''
      else join nl
        ([title] @ map format_line (slice_to rows max_rows)
         @ (if int (length rows) > max_rows
            then [''- ... and '' @ str_int (int (length rows) - max_rows) @ '' more'']
            else [])))"

section \<open>Exceptions and the outside world\<close>

text \<open>
  Every exception the program can meet is a subclass of \<^verbatim>\<open>Exception\<close>; the model keeps
  the class and the text \<^verbatim>\<open>str(exc)\<close> gives. \<open>OSError\<close> stands for the errors of
  \<^verbatim>\<open>urllib\<close> (\<^verbatim>\<open>URLError\<close>, \<^verbatim>\<open>HTTPError\<close>, timeouts), \<open>ValueError\<close> also for
  \<^verbatim>\<open>json.JSONDecodeError\<close>, \<open>OtherError\<close> for any other class.
\<close>

datatype exn =
    OSError string
  | ValueError string
  | AttributeError string
  | OverflowError string
  | RuntimeError string
  | OtherError string

fun exn_str :: "exn \<Rightarrow> string" where
  "exn_str (OSError m) = m"
| "exn_str (ValueError m) = m"
| "exn_str (AttributeError m) = m"
| "exn_str (OverflowError m) = m"
| "exn_str (RuntimeError m) = m"
| "exn_str (OtherError m) = m"

text \<open>\<^verbatim>\<open>v.get(...)\<close> on a value that is not a dict.\<close>

definition no_get :: "pyval \<Rightarrow> exn" where
  "no_get v = AttributeError ([CHR 0x27] @ type_name v @ [CHR 0x27]
     @ '' object has no attribute '' @ [CHR 0x27] @ ''get'' @ [CHR 0x27])"

text \<open>
  What the program reads from outside, and the library functions it calls: the
  environment, the clock, the answer of every URL (the text \<^verbatim>\<open>_http_get_text\<close> decodes,
  or the exception raised), the answer to a POST, and \<^verbatim>\<open>int\<close>, \<^verbatim>\<open>strftime\<close>,
  \<^verbatim>\<open>isoformat\<close>, \<^verbatim>\<open>urlencode\<close>, \<^verbatim>\<open>json.loads\<close>, \<^verbatim>\<open>csv.DictReader\<close> and \<^verbatim>\<open>repr\<close>.
  A date is its proleptic Gregorian ordinal. One run asks for each URL at most once, so
  an answer per URL loses nothing; the cookie jar of the NSE opener is not modelled.
\<close>

record world =
  environ :: "string \<rightharpoonup> string"
  utc_today :: int
  parse_int :: "string \<Rightarrow> exn + int"
  strftime_dmy :: "int \<Rightarrow> string"
  strftime_ymd :: "int \<Rightarrow> string"
  isoformat :: "int \<Rightarrow> string"
  urlopen :: "string \<Rightarrow> exn + string"
  urlopen_post :: "string \<Rightarrow> string \<Rightarrow> exn + string"
  urlencode :: "(string \<times> string) list \<Rightarrow> string"
  json_loads :: "string \<Rightarrow> exn + pyval"
  csv_DictReader :: "string \<Rightarrow> exn + (string \<rightharpoonup> string) list"
  repr :: "pyval \<Rightarrow> string"

text \<open>
  Network activity is a log of requests, threaded through every function that performs
  one: the function takes the log so far and returns its result, or the exception it
  raises, with the log extended.
\<close>

datatype request = GET string | POST string string

type_synonym 'a io = "request list \<Rightarrow> (exn + 'a) \<times> request list"

definition http_get_text :: "world \<Rightarrow> string \<Rightarrow> string io" where
  "http_get_text w url log = (urlopen w url, log @ [GET url])"

definition build_nse_opener :: "world \<Rightarrow> unit io" where
  "build_nse_opener w log =
     (case urlopen w ''https://www.nseindia.com'' of
        Inl e \<Rightarrow> (Inl e, log @ [GET ''https://www.nseindia.com''])
      | Inr _ \<Rightarrow> (Inr (), log @ [GET ''https://www.nseindia.com'']))"

text \<open>
  \<^verbatim>\<open>datetime.timedelta(days=n)\<close> and \<^verbatim>\<open>date + timedelta\<close>, with their range checks.
  CPython first converts the number of days to a C \<^verbatim>\<open>int\<close> and then checks its
  magnitude.
\<close>

definition timedelta :: "int \<Rightarrow> exn + int" where
  "timedelta n =
     (if n < - 2147483648 \<or> 2147483647 < n
      then Inl (OverflowError ''Python int too large to convert to C int'')
      else if \<bar>n\<bar> > 999999999
      then Inl (OverflowError (''days='' @ str_int n @ ''; must have magnitude <= 999999999''))
      else Inr n)"

definition date_add :: "int \<Rightarrow> int \<Rightarrow> exn + int" where
  "date_add d n =
     (if 1 \<le> d + n \<and> d + n \<le> 3652059 then Inr (d + n)
      else Inl (OverflowError ''date value out of range''))"

section \<open>Normalizing NSE payloads: \<^verbatim>\<open>parse_json_rows\<close>\<close>

text \<open>The \<^verbatim>\<open>DealRow(...)\<close> built for one item of the payload.\<close>

definition json_row :: "(pyval \<Rightarrow> string) \<Rightarrow> string \<Rightarrow> string \<Rightarrow> (string \<times> pyval) list \<Rightarrow> DealRow" where
  "json_row rp ex dt item =
     \<lparr> exchange = ex,
       deal_type = dt,
       symbol = strip (py_str rp (py_or (dict_get item ''symbol'')
                 (py_or (dict_get item ''scripName'') (py_or (dict_get item ''Security'') (PStr []))))),
       date = strip (py_str rp (py_or (dict_get item ''date'')
                 (py_or (dict_get item ''dt'') (py_or (dict_get item ''DealDate'') (PStr []))))),
       quantity = strip (py_str rp (py_or (dict_get item ''quantityTraded'')
                 (py_or (dict_get item ''qty'') (py_or (dict_get item ''Quantity'') (PStr []))))),
       price = strip (py_str rp (py_or (dict_get item ''pricePerShare'')
                 (py_or (dict_get item ''price'') (py_or (dict_get item ''Price'') (PStr []))))),
       buyer = strip (py_str rp (py_or (dict_get item ''clientName'')
                 (py_or (dict_get item ''buyerName'') (py_or (dict_get item ''Buyer'') (PStr []))))),
       seller = strip (py_str rp (py_or (dict_get item ''sellerName'')
                 (py_or (dict_get item ''Seller'') (PStr [])))) \<rparr>"

fun json_rows_loop :: "(pyval \<Rightarrow> string) \<Rightarrow> string \<Rightarrow> string \<Rightarrow> pyval list \<Rightarrow> DealRow list" where
  "json_rows_loop rp ex dt [] = []"
| "json_rows_loop rp ex dt (PDict item # data) = json_row rp ex dt item # json_rows_loop rp ex dt data"
| "json_rows_loop rp ex dt (_ # data) = json_rows_loop rp ex dt data"

definition parse_json_rows :: "(pyval \<Rightarrow> string) \<Rightarrow> pyval \<Rightarrow> string \<Rightarrow> string \<Rightarrow> exn + DealRow list" where
  "parse_json_rows rp payload ex dt =
     (case payload of
        PDict p \<Rightarrow>
          (case dict_get p ''data'' of
             PList data \<Rightarrow> Inr (json_rows_loop rp ex dt data)
           | _ \<Rightarrow> Inr [])
      | _ \<Rightarrow> Inl (no_get payload))"

section \<open>The NSE universe: \<^verbatim>\<open>fetch_nse_sme_symbols\<close>\<close>

text \<open>\<^verbatim>\<open>a or b\<close> where \<open>a\<close> is a string or \<^verbatim>\<open>None\<close>, as \<^verbatim>\<open>row.get\<close> of a CSV row gives.\<close>

definition str_or :: "string option \<Rightarrow> string \<Rightarrow> string" where
  "str_or a b = (case a of None \<Rightarrow> b | Some s \<Rightarrow> if s \<noteq> [] then s else b)"

fun nse_symbols_loop :: "(string \<rightharpoonup> string) list \<Rightarrow> string set \<Rightarrow> string set" where
  "nse_symbols_loop [] out = out"
| "nse_symbols_loop (row # rows) out =
     (let series = upper (strip (str_or (row '' SERIES'') (str_or (row ''SERIES'') [])))
      in if series \<in> {''SM'', ''ST''}
         then (let sym = upper (strip (str_or (row ''SYMBOL'') []))
               in if sym \<noteq> [] then nse_symbols_loop rows (insert sym out)
                  else nse_symbols_loop rows out)
         else nse_symbols_loop rows out)"

definition nse_master_url :: string where
  "nse_master_url = ''https://nsearchives.nseindia.com/content/equities/EQUITY_L.csv''"

definition fetch_nse_sme_symbols :: "world \<Rightarrow> string set io" where
  "fetch_nse_sme_symbols w log =
     (case http_get_text w nse_master_url log of
        (Inl e, log1) \<Rightarrow> (Inl e, log1)
      | (Inr text, log1) \<Rightarrow>
          (case csv_DictReader w text of
             Inl e \<Rightarrow> (Inl e, log1)
           | Inr rows \<Rightarrow> (Inr (nse_symbols_loop rows {}), log1)))"

section \<open>NSE deals: \<^verbatim>\<open>fetch_nse_deals\<close>\<close>

definition nse_candidates :: "string \<Rightarrow> string \<Rightarrow> (string \<times> string) list" where
  "nse_candidates fm to =
     [(''bulk'', ''https://www.nseindia.com/api/historicalOR/bulk-deals?from='' @ fm @ ''&to='' @ to),
      (''block'', ''https://www.nseindia.com/api/historicalOR/block-deals?from='' @ fm @ ''&to='' @ to),
      (''bulk'', ''https://www.nseindia.com/api/historicalOR/bulk-block-short-deals?optionType=bulk_deals&from=''
         @ fm @ ''&to='' @ to),
      (''block'', ''https://www.nseindia.com/api/historicalOR/bulk-block-short-deals?optionType=block_deals&from=''
         @ fm @ ''&to='' @ to)]"

text \<open>
  The loop over the candidates: a failed request or a body that is not JSON skips the
  candidate; \<^verbatim>\<open>parse_json_rows\<close> is called outside the \<^verbatim>\<open>try\<close>, so its exception
  leaves the function.
\<close>

fun nse_deals_loop :: "world \<Rightarrow> (string \<times> string) list \<Rightarrow> DealRow list \<Rightarrow> DealRow list io" where
  "nse_deals_loop w [] rows log = (Inr rows, log)"
| "nse_deals_loop w ((dt, url) # cs) rows log =
     (case http_get_text w url log of
        (Inl e, log1) \<Rightarrow> nse_deals_loop w cs rows log1
      | (Inr body, log1) \<Rightarrow>
          (case json_loads w body of
             Inl e \<Rightarrow> nse_deals_loop w cs rows log1
           | Inr payload \<Rightarrow>
               (case parse_json_rows (repr w) payload ''NSE'' (upper dt) of
                  Inl e \<Rightarrow> (Inl e, log1)
                | Inr new \<Rightarrow> nse_deals_loop w cs (rows @ new) log1)))"

text \<open>
  A Python dict keeps its keys in the order of their first insertion; storing under a
  key that is present replaces the value where the key stands.
\<close>

fun dict_set :: "('k \<times> 'v) list \<Rightarrow> 'k \<Rightarrow> 'v \<Rightarrow> ('k \<times> 'v) list" where
  "dict_set [] k v = [(k, v)]"
| "dict_set ((k', v') # d) k v = (if k' = k then (k', v) # d else (k', v') # dict_set d k v)"

type_synonym row_key = "string \<times> string \<times> string \<times> string \<times> string \<times> string \<times> string \<times> string"

definition row_key :: "DealRow \<Rightarrow> row_key" where
  "row_key r = (exchange r, deal_type r, symbol r, date r, quantity r, price r, buyer r, seller r)"

text \<open>\<^verbatim>\<open>uniq = {(r.exchange, ...): r for r in rows}\<close> and \<^verbatim>\<open>list(uniq.values())\<close>.\<close>

definition uniq :: "DealRow list \<Rightarrow> (row_key \<times> DealRow) list" where
  "uniq rows = foldl (\<lambda>d r. dict_set d (row_key r) r) [] rows"

definition dict_values :: "('k \<times> 'v) list \<Rightarrow> 'v list" where
  "dict_values d = map snd d"

definition fetch_nse_deals :: "world \<Rightarrow> int \<Rightarrow> int \<Rightarrow> DealRow list io" where
  "fetch_nse_deals w from_date to_date log =
     (let fm = strftime_dmy w from_date; to = strftime_dmy w to_date
      in case nse_deals_loop w (nse_candidates fm to) [] log of
           (Inl e, log1) \<Rightarrow> (Inl e, log1)
         | (Inr rows, log1) \<Rightarrow> (Inr (dict_values (uniq rows)), log1))"

section \<open>The BSE universe: \<^verbatim>\<open>fetch_bse_sme_symbols\<close>\<close>

definition bse_symbol_urls :: "string list" where
  "bse_symbol_urls =
     [''https://api.bseindia.com/BseIndiaAPI/api/ListofScripData/w?group=&Scripcode=&industry=&segment=SME'',
      ''https://api.bseindia.com/BseIndiaAPI/api/ListofScripData/w?Group=&Scripcode=&industry=&segment=SME'']"

text \<open>\<^verbatim>\<open>for row in vals\<close>.\<close>

fun bse_symbols_rows :: "(pyval \<Rightarrow> string) \<Rightarrow> pyval list \<Rightarrow> string set \<Rightarrow> string set" where
  "bse_symbols_rows rp [] out = out"
| "bse_symbols_rows rp (PDict row # vals) out =
     (let sym = upper (strip (py_str rp (py_or (dict_get row ''SecurityId'')
                  (py_or (dict_get row ''scrip_cd'') (py_or (dict_get row ''symbol'') (PStr []))))))
      in if sym \<noteq> [] then bse_symbols_rows rp vals (insert sym out)
         else bse_symbols_rows rp vals out)"
| "bse_symbols_rows rp (_ # vals) out = bse_symbols_rows rp vals out"

text \<open>\<^verbatim>\<open>for key in ("Table", "Data", "table")\<close>.\<close>

fun bse_symbols_keys :: "(pyval \<Rightarrow> string) \<Rightarrow> (string \<times> pyval) list \<Rightarrow> string list \<Rightarrow> string set \<Rightarrow> string set" where
  "bse_symbols_keys rp payload [] out = out"
| "bse_symbols_keys rp payload (key # keys) out =
     (case dict_get payload key of
        PList vals \<Rightarrow> bse_symbols_keys rp payload keys (bse_symbols_rows rp vals out)
      | _ \<Rightarrow> bse_symbols_keys rp payload keys out)"

text \<open>
  \<^verbatim>\<open>for url in urls\<close>: the request and \<^verbatim>\<open>json.loads\<close> stand inside the \<^verbatim>\<open>try\<close>;
  \<^verbatim>\<open>payload.get\<close> stands after it.
\<close>

fun bse_symbols_urls :: "world \<Rightarrow> string list \<Rightarrow> string set \<Rightarrow> string set io" where
  "bse_symbols_urls w [] out log = (Inr out, log)"
| "bse_symbols_urls w (url # urls) out log =
     (case http_get_text w url log of
        (Inl e, log1) \<Rightarrow> bse_symbols_urls w urls out log1
      | (Inr text, log1) \<Rightarrow>
          (case json_loads w text of
             Inl e \<Rightarrow> bse_symbols_urls w urls out log1
           | Inr payload \<Rightarrow>
               (case payload of
                  PDict p \<Rightarrow>
                    (let out1 = bse_symbols_keys (repr w) p [''Table'', ''Data'', ''table''] out
                     in if out1 \<noteq> {} then (Inr out1, log1)
                        else bse_symbols_urls w urls out1 log1)
                | _ \<Rightarrow> (Inl (no_get payload), log1))))"

definition fetch_bse_sme_symbols :: "world \<Rightarrow> string set io" where
  "fetch_bse_sme_symbols w log = bse_symbols_urls w bse_symbol_urls {} log"

section \<open>BSE deals: \<^verbatim>\<open>fetch_bse_deals\<close>\<close>

definition bse_candidates :: "string \<Rightarrow> (string \<times> string) list" where
  "bse_candidates ymd =
     [(''bulk'', ''https://api.bseindia.com/BseIndiaAPI/api/MktWatchBulkDealData/w?strType=B&strDate='' @ ymd),
      (''block'', ''https://api.bseindia.com/BseIndiaAPI/api/MktWatchBulkDealData/w?strType=BL&strDate='' @ ymd)]"

text \<open>The \<^verbatim>\<open>DealRow(...)\<close> built for one item of a BSE table; \<open>as_on_iso\<close> is \<^verbatim>\<open>as_on.isoformat()\<close>.\<close>

definition bse_row :: "(pyval \<Rightarrow> string) \<Rightarrow> string \<Rightarrow> string \<Rightarrow> (string \<times> pyval) list \<Rightarrow> DealRow" where
  "bse_row rp dt as_on_iso item =
     \<lparr> exchange = ''BSE'',
       deal_type = upper dt,
       symbol = strip (py_str rp (py_or (dict_get item ''Security'')
                 (py_or (dict_get item ''scripname'') (py_or (dict_get item ''ScripName'') (PStr []))))),
       date = strip (py_str rp (py_or (dict_get item ''Date'')
                 (py_or (dict_get item ''DealDate'') (PStr as_on_iso)))),
       quantity = strip (py_str rp (py_or (dict_get item ''Qty'')
                 (py_or (dict_get item ''Quantity'') (PStr [])))),
       price = strip (py_str rp (py_or (dict_get item ''Price'')
                 (py_or (dict_get item ''DealPrice'') (PStr [])))),
       buyer = strip (py_str rp (py_or (dict_get item ''BuyerName'')
                 (py_or (dict_get item ''ClientName'') (PStr [])))),
       seller = strip (py_str rp (py_or (dict_get item ''SellerName'') (PStr []))) \<rparr>"

fun bse_rows_loop :: "(pyval \<Rightarrow> string) \<Rightarrow> string \<Rightarrow> string \<Rightarrow> pyval list \<Rightarrow> DealRow list" where
  "bse_rows_loop rp dt as_on_iso [] = []"
| "bse_rows_loop rp dt as_on_iso (PDict item # table) = bse_row rp dt as_on_iso item # bse_rows_loop rp dt as_on_iso table"
| "bse_rows_loop rp dt as_on_iso (_ # table) = bse_rows_loop rp dt as_on_iso table"

fun bse_deals_loop :: "world \<Rightarrow> string \<Rightarrow> (string \<times> string) list \<Rightarrow> DealRow list \<Rightarrow> DealRow list io" where
  "bse_deals_loop w as_on_iso [] rows log = (Inr rows, log)"
| "bse_deals_loop w as_on_iso ((dt, url) # cs) rows log =
     (case http_get_text w url log of
        (Inl e, log1) \<Rightarrow> bse_deals_loop w as_on_iso cs rows log1
      | (Inr body, log1) \<Rightarrow>
          (case json_loads w body of
             Inl e \<Rightarrow> bse_deals_loop w as_on_iso cs rows log1
           | Inr payload \<Rightarrow>
               (case payload of
                  PDict p \<Rightarrow>
                    (case py_or (dict_get p ''Table'') (py_or (dict_get p ''Data'') (PList [])) of
                       PList table \<Rightarrow>
                         bse_deals_loop w as_on_iso cs (rows @ bse_rows_loop (repr w) dt as_on_iso table) log1
                     | _ \<Rightarrow> bse_deals_loop w as_on_iso cs rows log1)
                | _ \<Rightarrow> (Inl (no_get payload), log1))))"

definition fetch_bse_deals :: "world \<Rightarrow> int \<Rightarrow> DealRow list io" where
  "fetch_bse_deals w as_on log =
     bse_deals_loop w (isoformat w as_on) (bse_candidates (strftime_ymd w as_on)) [] log"

section \<open>\<^verbatim>\<open>send_telegram_message\<close>\<close>

definition send_telegram_message :: "world \<Rightarrow> string \<Rightarrow> string \<Rightarrow> string \<Rightarrow> unit io" where
  "send_telegram_message w token chat_id text log =
     (let data = urlencode w [(''chat_id'', chat_id), (''text'', text)];
          url = ''https://api.telegram.org/bot'' @ token @ ''/sendMessage'';
          log1 = log @ [POST url data]
      in case urlopen_post w url data of
           Inl e \<Rightarrow> (Inl e, log1)
         | Inr body \<Rightarrow>
             (case json_loads w body of
                Inl e \<Rightarrow> (Inl e, log1)
              | Inr payload \<Rightarrow>
                  (case payload of
                     PDict p \<Rightarrow>
                       if \<not> truthy (dict_get p ''ok'')
                       then (Inl (RuntimeError (''Telegram API error: '' @ py_str (repr w) payload)), log1)
                       else (Inr (), log1)
                   | _ \<Rightarrow> (Inl (no_get payload), log1))))"

section \<open>\<^verbatim>\<open>main\<close>\<close>

definition getenv :: "world \<Rightarrow> string \<Rightarrow> string \<Rightarrow> string" where
  "getenv w k d = (case environ w k of None \<Rightarrow> d | Some v \<Rightarrow> v)"

text \<open>The body of the first \<^verbatim>\<open>try\<close>.\<close>

definition nse_block :: "world \<Rightarrow> int \<Rightarrow> int \<Rightarrow> DealRow list io" where
  "nse_block w from_date to_date log =
     (case build_nse_opener w log of
        (Inl e, log1) \<Rightarrow> (Inl e, log1)
      | (Inr nse_opener, log1) \<Rightarrow>
          (case fetch_nse_sme_symbols w log1 of
             (Inl e, log2) \<Rightarrow> (Inl e, log2)
           | (Inr nse_sme, log2) \<Rightarrow>
               (case fetch_nse_deals w from_date to_date log2 of
                  (Inl e, log3) \<Rightarrow> (Inl e, log3)
                | (Inr rows, log3) \<Rightarrow> (Inr (filter_sme rows nse_sme), log3))))"

text \<open>\<^verbatim>\<open>while cursor <= to_date\<close>: one call of \<^verbatim>\<open>fetch_bse_deals\<close> per day.\<close>

function bse_days_loop :: "world \<Rightarrow> int \<Rightarrow> int \<Rightarrow> DealRow list \<Rightarrow> DealRow list io" where
  "bse_days_loop w cursor to_date all_rows log =
     (if cursor \<le> to_date
      then (case fetch_bse_deals w cursor log of
              (Inl e, log1) \<Rightarrow> (Inl e, log1)
            | (Inr rows, log1) \<Rightarrow>
                (case date_add cursor 1 of
                   Inl e \<Rightarrow> (Inl e, log1)
                 | Inr next_day \<Rightarrow> bse_days_loop w next_day to_date (all_rows @ rows) log1))
      else (Inr all_rows, log))"
  by pat_completeness auto
termination
  by (relation "measure (\<lambda>(w, cursor, to_date, all_rows, log). nat (to_date - cursor + 1))")
    (auto simp: date_add_def split: if_splits)

declare bse_days_loop.simps [simp del]

text \<open>The body of the second \<^verbatim>\<open>try\<close>.\<close>

definition bse_block :: "world \<Rightarrow> int \<Rightarrow> int \<Rightarrow> DealRow list io" where
  "bse_block w from_date to_date log =
     (case fetch_bse_sme_symbols w log of
        (Inl e, log1) \<Rightarrow> (Inl e, log1)
      | (Inr bse_sme, log1) \<Rightarrow>
          (case bse_days_loop w from_date to_date [] log1 of
             (Inl e, log2) \<Rightarrow> (Inl e, log2)
           | (Inr all_rows, log2) \<Rightarrow> (Inr (filter_sme all_rows bse_sme), log2)))"

text \<open>
  Lines 232 to 236 of \<^verbatim>\<open>main\<close>: the two optional settings and the date range. Nothing
  here stands inside a \<^verbatim>\<open>try\<close>. The result is \<open>(from_date, to_date, max_rows)\<close>.
\<close>

definition read_settings :: "world \<Rightarrow> exn + (int \<times> int \<times> int)" where
  "read_settings w =
     (case parse_int w (getenv w ''LOOKBACK_DAYS'' ''1'') of
        Inl e \<Rightarrow> Inl e
      | Inr lookback_days \<Rightarrow>
          (case parse_int w (getenv w ''MAX_ROWS_PER_SECTION'' ''20'') of
             Inl e \<Rightarrow> Inl e
           | Inr max_rows \<Rightarrow>
               (let to_date = utc_today w
                in case timedelta (max lookback_days 1 - 1) of
                     Inl e \<Rightarrow> Inl e
                   | Inr delta \<Rightarrow>
                       (case date_add to_date (- delta) of
                          Inl e \<Rightarrow> Inl e
                        | Inr from_date \<Rightarrow> Inr (from_date, to_date, max_rows)))))"

text \<open>
  Lines 238 to 266: the two \<^verbatim>\<open>try\<close> blocks, each \<^verbatim>\<open>except Exception\<close> turning the
  exception into a note, and the parts of the message. The result is \<^verbatim>\<open>message_parts\<close>
  and the requests made.
\<close>

definition message_parts :: "world \<Rightarrow> int \<Rightarrow> int \<Rightarrow> int \<Rightarrow> string list \<times> request list" where
  "message_parts w from_date to_date max_rows =
     (let (r1, log1) = nse_block w from_date to_date [];
          (nse_rows, notes1) =
            (case r1 of Inr rows \<Rightarrow> (rows, [])
             | Inl exc \<Rightarrow> ([], [''NSE fetch warning: '' @ exn_str exc]));
          (r2, log2) = bse_block w from_date to_date log1;
          (bse_rows, notes) =
            (case r2 of Inr rows \<Rightarrow> (rows, notes1)
             | Inl exc \<Rightarrow> ([], notes1 @ [''BSE fetch warning: '' @ exn_str exc]));
          header = ''SME block/bulk scan ('' @ isoformat w from_date @ '' to '' @ isoformat w to_date @ '')''
      in ([header, [], format_rows ''NSE'' nse_rows max_rows, [],
           format_rows ''BSE'' bse_rows max_rows]
          @ (if notes \<noteq> [] then [[], ''Warnings:''] @ map (\<lambda>n. ''- '' @ n) notes else []),
          log2))"

datatype outcome = Returned int | Raised exn

text \<open>What one run does: how \<^verbatim>\<open>main\<close> ends, the requests it made, and what it printed.\<close>

record run =
  outcome :: outcome
  requests :: "request list"
  stdout :: "string list"
  stderr :: "string list"

definition crashed :: "exn \<Rightarrow> request list \<Rightarrow> run" where
  "crashed e log = \<lparr> outcome = Raised e, requests = log, stdout = [], stderr = [] \<rparr>"

definition main :: "world \<Rightarrow> run" where
  "main w =
     (let token = strip (getenv w ''TELEGRAM_BOT_TOKEN'' []);
          chat_id = strip (getenv w ''TELEGRAM_CHAT_ID'' [])
      in if token = [] \<or> chat_id = []
         then \<lparr> outcome = Returned 2, requests = [], stdout = [],
                stderr = [''Set TELEGRAM_BOT_TOKEN and TELEGRAM_CHAT_ID first.''] \<rparr>
         else
           (case read_settings w of
              Inl e \<Rightarrow> crashed e []
            | Inr (from_date, to_date, max_rows) \<Rightarrow>
                (let (parts, log) = message_parts w from_date to_date max_rows;
                     message = join nl parts
                 in case send_telegram_message w token chat_id message log of
                      (Inl e, log1) \<Rightarrow> crashed e log1
                    | (Inr _, log1) \<Rightarrow>
                        \<lparr> outcome = Returned 0, requests = log1,
                          stdout = [''Telegram update sent successfully.''], stderr = [] \<rparr>)))"

section \<open>First-seen order\<close>


section \<open>Example inputs\<close>

definition row_abc :: DealRow where
  "row_abc = \<lparr> exchange = ''NSE'', deal_type = ''BULK'', symbol = ''abc'', date = ''03-Nov-2026'',
     quantity = ''500'', price = ''12.5'', buyer = ''A'', seller = [] \<rparr>"

definition row_xyz :: DealRow where
  "row_xyz = \<lparr> exchange = ''NSE'', deal_type = ''BULK'', symbol = ''XYZ'', date = ''03-Nov-2026'',
     quantity = ''70'', price = ''3'', buyer = ''B'', seller = [] \<rparr>"

text \<open>
  The items the exchanges send for these rows: the NSE item of \<open>row_abc\<close> has its symbol
  in lower case with spaces around it.
\<close>

definition item_abc :: "(string \<times> pyval) list" where
  "item_abc = [(''symbol'', PStr '' abc ''), (''date'', PStr ''03-Nov-2026''),
     (''quantityTraded'', PInt 500), (''pricePerShare'', PFloat ''12.5''), (''clientName'', PStr ''A'')]"

definition item_xyz :: "(string \<times> pyval) list" where
  "item_xyz = [(''symbol'', PStr ''XYZ''), (''date'', PStr ''03-Nov-2026''),
     (''quantityTraded'', PInt 70), (''pricePerShare'', PInt 3), (''clientName'', PStr ''B'')]"

definition item_bse :: "(string \<times> pyval) list" where
  "item_bse = [(''Security'', PStr ''abc''), (''Qty'', PInt 500), (''Price'', PFloat ''12.5'')]"

definition row_bse :: DealRow where
  "row_bse = \<lparr> exchange = ''BSE'', deal_type = ''BULK'', symbol = ''abc'', date = ''2026-11-03'',
     quantity = ''500'', price = ''12.5'', buyer = [], seller = [] \<rparr>"

text \<open>
  A world on 2026-11-03 with both credentials set, in which every GET fails and Telegram
  answers \<^verbatim>\<open>{"ok": true}\<close>. The other example worlds change it where they differ.
\<close>

definition demo_int :: "string \<Rightarrow> exn + int" where
  "demo_int s =
     (if s = ''1'' then Inr 1 else if s = ''2'' then Inr 2 else if s = ''20'' then Inr 20
      else Inl (ValueError (''invalid literal for int() with base 10: '' @ [CHR 0x27] @ s @ [CHR 0x27])))"

definition demo_loads :: "string \<Rightarrow> exn + pyval" where
  "demo_loads s =
     (if s = ''ok'' then Inr (PDict [(''ok'', PBool True)])
      else if s = ''refused'' then Inr (PDict [(''ok'', PBool False), (''description'', PStr ''Forbidden'')])
      else if s = ''list'' then Inr (PList [])
      else if s = ''deals'' then Inr (PDict [(''data'', PList [PDict item_abc, PDict item_xyz]),
                                              (''Table'', PList [PDict item_bse, PDict item_bse])])
      else Inl (ValueError ''Expecting value: line 1 column 1 (char 0)''))"

definition world_down :: world where
  "world_down =
     \<lparr> environ = [''TELEGRAM_BOT_TOKEN'' \<mapsto> ''T'', ''TELEGRAM_CHAT_ID'' \<mapsto> ''C''],
       utc_today = 739923,
       parse_int = demo_int,
       strftime_dmy = (\<lambda>d. ''03-11-2026''),
       strftime_ymd = (\<lambda>d. ''20261103''),
       isoformat = (\<lambda>d. ''2026-11-03''),
       urlopen = (\<lambda>url. Inl (OSError ''down'')),
       urlopen_post = (\<lambda>url data. Inr ''ok''),
       urlencode = (\<lambda>kvs. concat (map (\<lambda>(k, v). k @ ''='' @ v @ ''&'') kvs)),
       json_loads = demo_loads,
       csv_DictReader = (\<lambda>text. Inr []),
       repr = (\<lambda>v. ''{...}'') \<rparr>"

text \<open>The universe sources of both exchanges fail; every other GET returns deals.\<close>

definition world_no_universe :: world where
  "world_no_universe =
     world_down \<lparr> urlopen := (\<lambda>url. if url = nse_master_url \<or> url \<in> set bse_symbol_urls
                                     then Inl (OSError ''down'') else Inr ''deals'') \<rparr>"

text \<open>Every GET returns deals, and the NSE master file lists no SME symbol.\<close>

definition world_deals :: world where
  "world_deals = world_down \<lparr> urlopen := (\<lambda>url. Inr ''deals'') \<rparr>"

text \<open>Every GET returns the JSON text of a list, where the program expects an object.\<close>

definition world_lists :: world where
  "world_lists = world_down \<lparr> urlopen := (\<lambda>url. Inr ''list'') \<rparr>"

text \<open>\<^verbatim>\<open>LOOKBACK_DAYS\<close> is set to a text that is no number.\<close>

definition world_bad_lookback :: world where
  "world_bad_lookback =
     world_down \<lparr> environ := [''TELEGRAM_BOT_TOKEN'' \<mapsto> ''T'', ''TELEGRAM_CHAT_ID'' \<mapsto> ''C'',
                              ''LOOKBACK_DAYS'' \<mapsto> ''abc''] \<rparr>"

text \<open>The bot token is set to white space; no token is set at all.\<close>

definition world_blank_token :: world where
  "world_blank_token =
     world_down \<lparr> environ := [''TELEGRAM_BOT_TOKEN'' \<mapsto> [CHR '' '', CHR 0x09],
                              ''TELEGRAM_CHAT_ID'' \<mapsto> ''C''] \<rparr>"

definition world_no_token :: world where
  "world_no_token = world_down \<lparr> environ := [''TELEGRAM_CHAT_ID'' \<mapsto> ''C''] \<rparr>"

text \<open>Telegram cannot be reached; answers with a page that is not JSON; refuses the message.\<close>

definition world_telegram_down :: world where
  "world_telegram_down = world_down \<lparr> urlopen_post := (\<lambda>url data. Inl (OSError ''timed out'')) \<rparr>"

definition world_telegram_html :: world where
  "world_telegram_html = world_down \<lparr> urlopen_post := (\<lambda>url data. Inr ''<html>'') \<rparr>"

definition world_telegram_refuses :: world where
  "world_telegram_refuses = world_down \<lparr> urlopen_post := (\<lambda>url data. Inr ''refused'') \<rparr>"

text \<open>
  The universe sources of both exchanges answer with an HTML page, which \<^verbatim>\<open>csv.DictReader\<close>
  reads as one row under the column \<^verbatim>\<open><html>\<close> and \<^verbatim>\<open>json.loads\<close> refuses; every other
  GET returns deals.
\<close>

definition world_html_universe :: world where
  "world_html_universe =
     world_down \<lparr> urlopen := (\<lambda>url. if url = nse_master_url \<or> url \<in> set bse_symbol_urls
                                     then Inr (''<html>'' @ nl @ ''<body>'') else Inr ''deals''),
                  csv_DictReader := (\<lambda>text. if text = ''<html>'' @ nl @ ''<body>''
                                            then Inr [[''<html>'' \<mapsto> ''<body>'']] else Inr []) \<rparr>"

text \<open>Every GET returns deals, and \<^verbatim>\<open>csv.DictReader\<close> raises on the master file.\<close>

definition world_csv_error :: world where
  "world_csv_error =
     world_deals \<lparr> csv_DictReader := (\<lambda>text. Inl (OtherError ''field larger than field limit (131072)'')) \<rparr>"

text \<open>
  \<^verbatim>\<open>LOOKBACK_DAYS=2\<close>: the run covers 2026-11-02 and 2026-11-03, and every GET returns
  deals. The BSE items carry no date, so the records of each day carry the day asked for.
\<close>

definition world_two_days :: world where
  "world_two_days =
     world_deals \<lparr> environ := [''TELEGRAM_BOT_TOKEN'' \<mapsto> ''T'', ''TELEGRAM_CHAT_ID'' \<mapsto> ''C'',
                               ''LOOKBACK_DAYS'' \<mapsto> ''2''],
                   strftime_dmy := (\<lambda>d. if d = 739922 then ''02-11-2026'' else ''03-11-2026''),
                   strftime_ymd := (\<lambda>d. if d = 739922 then ''20261102'' else ''20261103''),
                   isoformat := (\<lambda>d. if d = 739922 then ''2026-11-02'' else ''2026-11-03'') \<rparr>"

text \<open>
  Items whose symbol stands under a later candidate key, the earlier ones being empty or
  \<^verbatim>\<open>null\<close>.
\<close>

definition item_security :: "(string \<times> pyval) list" where
  "item_security = [(''symbol'', PStr []), (''scripName'', PNone), (''Security'', PStr '' abc Ltd '')]"

definition item_scripname :: "(string \<times> pyval) list" where
  "item_scripname = [(''scripname'', PStr []), (''ScripName'', PStr ''abc '')]"

section \<open>Rules for evaluating the model on a given input\<close>

lemmas string_simps = isspace_def lstrip_def rstrip_def strip_def upper_def upper_char_def nl_def
  str_int_def digit_char_def

lemmas value_simps = py_or_def dict_get_def type_name_def no_get_def str_or_def

lemmas row_simps = json_row_def bse_row_def parse_json_rows_def filter_sme_def format_rows_def
  format_line_def slice_to_def uniq_def dict_values_def row_key_def

lemmas io_simps = http_get_text_def build_nse_opener_def fetch_nse_sme_symbols_def
  nse_master_url_def nse_candidates_def fetch_nse_deals_def bse_symbol_urls_def
  fetch_bse_sme_symbols_def bse_candidates_def fetch_bse_deals_def bse_days_loop.simps
  send_telegram_message_def nse_block_def bse_block_def timedelta_def date_add_def getenv_def
  read_settings_def message_parts_def crashed_def main_def Let_def

lemmas example_simps = row_abc_def row_xyz_def row_bse_def item_abc_def item_xyz_def item_bse_def
  demo_int_def demo_loads_def world_down_def world_no_universe_def world_deals_def world_lists_def
  world_bad_lookback_def world_blank_token_def world_no_token_def world_telegram_down_def
  world_telegram_html_def world_telegram_refuses_def world_html_universe_def world_csv_error_def
  world_two_days_def item_security_def item_scripname_def

section \<open>Stripping white space\<close>

lemma strip_all_space:
  assumes "\<forall>c\<in>set s. isspace c"
  shows "strip s = []"
proof -
  from assms have "lstrip s = []"
    by (simp add: lstrip_def)
  then show ?thesis
    by (simp add: strip_def rstrip_def)
qed

lemma strip_Nil: "strip [] = []"
  by (simp add: strip_def lstrip_def rstrip_def)





section \<open>Deduplication\<close>










section \<open>Claims\<close>

subsection \<open>C1: \<^verbatim>\<open>filter_sme\<close>\<close>

text \<open>
  C1. For every list of records and every symbol universe, \<^verbatim>\<open>filter_sme\<close> returns the
  whole list unchanged when the universe is empty, and otherwise exactly the records
  whose uppercased symbol is a member of the universe, in their original order: the
  result is the list filtered by that test, its elements are the qualifying elements of
  the input, and it is a subsequence of the input.
\<close>

theorem filter_sme_spec:
  "(symbols = {} \<longrightarrow> filter_sme rows symbols = rows) \<and>
   (symbols \<noteq> {} \<longrightarrow>
      filter_sme rows symbols = filter (\<lambda>r. upper (symbol r) \<in> symbols) rows \<and>
      set (filter_sme rows symbols) = {r \<in> set rows. upper (symbol r) \<in> symbols}) \<and>
   subseq (filter_sme rows symbols) rows"
  by (simp add: filter_sme_def)

theorem filter_sme_spec_witness:
  "filter_sme [row_abc, row_xyz] {} = [row_abc, row_xyz] \<and>
   {''ABC''} \<noteq> ({} :: string set) \<and>
   filter_sme [row_abc, row_xyz] {''ABC''} = [row_abc] \<and>
   filter (\<lambda>r. upper (symbol r) \<in> {''ABC''}) [row_abc, row_xyz] = [row_abc]"
  using filter_sme_spec [of "{}" "[row_abc, row_xyz]"]
    filter_sme_spec [of "{''ABC''}" "[row_abc, row_xyz]"]
  by (simp add: row_abc_def row_xyz_def upper_def upper_char_def)

subsection \<open>C4: deduplication\<close>




subsection \<open>C7: \<^verbatim>\<open>format_rows\<close>\<close>

text \<open>
  C7, as the claim states it for every maximum row count, fails for a negative one:
  \<^verbatim>\<open>rows[:max_rows]\<close> then drops rows from the end instead of taking none. With two
  records and \<^verbatim>\<open>max_rows = -1\<close> the output shows one record line and an overflow count
  of three, not the lines of the first \<open>max_rows\<close> records followed by the overflow line.
\<close>

theorem format_rows_negative_max_counterexample:
  "format_rows ''NSE'' [row_abc, row_xyz] (- 1) =
     ''NSE'' @ nl @ ''- 03-Nov-2026 | BULK | abc | Qty: 500 | Px: 12.5'' @ nl @ ''- ... and 3 more'' \<and>
   format_rows ''NSE'' [row_abc, row_xyz] (- 1) \<noteq>
     join nl (''NSE'' # map format_line (take (nat (- 1)) [row_abc, row_xyz])
              @ [''- ... and '' @ str_int (int (length [row_abc, row_xyz]) - (- 1)) @ '' more''])"
  by (simp add: format_rows_def slice_to_def row_abc_def row_xyz_def format_line_def str_int_def
      digit_char_def nl_def)

text \<open>
  C7, amended. For every title, record list and maximum row count that is not negative:
  formatting an empty list yields the title and the one line \<^verbatim>\<open>- No SME deals found\<close>;
  formatting a non-empty list of at most \<open>max_rows\<close> records yields the title and one
  line per record; formatting a longer list yields the title, one line for each of the
  first \<open>max_rows\<close> records, and a last line stating the overflow count, the total minus
  the maximum. A record's line shows date, category, symbol, quantity and price in that
  order.
\<close>

theorem format_rows_spec:
  "0 \<le> max_rows \<Longrightarrow>
   format_rows title [] max_rows = join nl [title, ''- No SME deals found''] \<and>
   (rows \<noteq> [] \<and> int (length rows) \<le> max_rows \<longrightarrow>
      format_rows title rows max_rows = join nl (title # map format_line rows)) \<and>
   (int (length rows) > max_rows \<longrightarrow>
      format_rows title rows max_rows =
        join nl (title # map format_line (take (nat max_rows) rows)
                 @ [''- ... and '' @ str_int (int (length rows) - max_rows) @ '' more''])) \<and>
   format_line r = ''- '' @ date r @ '' | '' @ deal_type r @ '' | '' @ symbol r
                   @ '' | Qty: '' @ quantity r @ '' | Px: '' @ price r"
  by (auto simp: format_rows_def slice_to_def format_line_def)

theorem format_rows_spec_witness:
  "(0::int) \<le> 1 \<and>
   format_rows ''NSE'' [] 1 = ''NSE'' @ nl @ ''- No SME deals found'' \<and>
   format_rows ''NSE'' [row_abc] 1 = ''NSE'' @ nl @ ''- 03-Nov-2026 | BULK | abc | Qty: 500 | Px: 12.5'' \<and>
   format_rows ''NSE'' [row_abc, row_xyz] 1 =
     ''NSE'' @ nl @ ''- 03-Nov-2026 | BULK | abc | Qty: 500 | Px: 12.5'' @ nl @ ''- ... and 1 more''"
  using format_rows_spec [of 1 "''NSE''" "[row_abc]" row_abc]
    format_rows_spec [of 1 "''NSE''" "[row_abc, row_xyz]" row_abc]
  by (simp add: row_abc_def row_xyz_def format_line_def str_int_def digit_char_def)

section \<open>The rows the normalizers build\<close>






subsection \<open>C5: the symbol of a record\<close>




subsection \<open>C6: a field none of whose candidate keys is present\<close>

text \<open>
  C6, as the claim states it for every field of either exchange, fails for the date of a
  BSE record: \<^verbatim>\<open>fetch_bse_deals\<close> falls back on \<^verbatim>\<open>as_on.isoformat()\<close>, the day asked
  for. The BSE item of the example has neither \<^verbatim>\<open>Date\<close> nor \<^verbatim>\<open>DealDate\<close>, and its
  records carry the date \<^verbatim>\<open>2026-11-03\<close>.
\<close>

theorem bse_date_default_counterexample:
  "map_of item_bse ''Date'' = None \<and> map_of item_bse ''DealDate'' = None \<and>
   fst (fetch_bse_deals world_deals 739923 []) =
     Inr [row_bse, row_bse, row_bse \<lparr> deal_type := ''BLOCK'' \<rparr>, row_bse \<lparr> deal_type := ''BLOCK'' \<rparr>] \<and>
   date row_bse = ''2026-11-03'' \<and> date row_bse \<noteq> []"
  by (simp add: string_simps value_simps row_simps io_simps example_simps)

text \<open>
  C6, amended. For every payload dictionary lacking every candidate key of a field, the
  record built has the empty string in that field: for symbol, date, quantity, price,
  buyer and seller of an NSE record, and for symbol, quantity, price, buyer and seller
  of a BSE record. The date of a BSE record is then the ISO text of the day asked for,
  stripped.
\<close>

theorem missing_keys_give_empty_field:
  "((\<forall>k\<in>set [''symbol'', ''scripName'', ''Security'']. map_of item k = None)
      \<longrightarrow> symbol (json_row rp ex dt item) = []) \<and>
   ((\<forall>k\<in>set [''date'', ''dt'', ''DealDate'']. map_of item k = None)
      \<longrightarrow> date (json_row rp ex dt item) = []) \<and>
   ((\<forall>k\<in>set [''quantityTraded'', ''qty'', ''Quantity'']. map_of item k = None)
      \<longrightarrow> quantity (json_row rp ex dt item) = []) \<and>
   ((\<forall>k\<in>set [''pricePerShare'', ''price'', ''Price'']. map_of item k = None)
      \<longrightarrow> price (json_row rp ex dt item) = []) \<and>
   ((\<forall>k\<in>set [''clientName'', ''buyerName'', ''Buyer'']. map_of item k = None)
      \<longrightarrow> buyer (json_row rp ex dt item) = []) \<and>
   ((\<forall>k\<in>set [''sellerName'', ''Seller'']. map_of item k = None)
      \<longrightarrow> seller (json_row rp ex dt item) = []) \<and>
   ((\<forall>k\<in>set [''Security'', ''scripname'', ''ScripName'']. map_of item k = None)
      \<longrightarrow> symbol (bse_row rp dt as_on_iso item) = []) \<and>
   ((\<forall>k\<in>set [''Qty'', ''Quantity'']. map_of item k = None)
      \<longrightarrow> quantity (bse_row rp dt as_on_iso item) = []) \<and>
   ((\<forall>k\<in>set [''Price'', ''DealPrice'']. map_of item k = None)
      \<longrightarrow> price (bse_row rp dt as_on_iso item) = []) \<and>
   ((\<forall>k\<in>set [''BuyerName'', ''ClientName'']. map_of item k = None)
      \<longrightarrow> buyer (bse_row rp dt as_on_iso item) = []) \<and>
   (map_of item ''SellerName'' = None
      \<longrightarrow> seller (bse_row rp dt as_on_iso item) = []) \<and>
   ((\<forall>k\<in>set [''Date'', ''DealDate'']. map_of item k = None)
      \<longrightarrow> date (bse_row rp dt as_on_iso item) = strip as_on_iso)"
  by (simp add: json_row_def bse_row_def dict_get_def py_or_def strip_Nil)

theorem missing_keys_give_empty_field_witness:
  "price (json_row (\<lambda>v. []) ''NSE'' ''BULK'' [(''symbol'', PStr ''abc'')]) = [] \<and>
   seller (json_row (\<lambda>v. []) ''NSE'' ''BULK'' [(''symbol'', PStr ''abc'')]) = [] \<and>
   buyer (bse_row (\<lambda>v. []) ''bulk'' ''2026-11-03'' [(''symbol'', PStr ''abc'')]) = [] \<and>
   symbol (bse_row (\<lambda>v. []) ''bulk'' ''2026-11-03'' [(''symbol'', PStr ''abc'')]) = [] \<and>
   date (bse_row (\<lambda>v. []) ''bulk'' ''2026-11-03'' [(''symbol'', PStr ''abc'')]) = ''2026-11-03''"
  using missing_keys_give_empty_field [of "[(''symbol'', PStr ''abc'')]" "\<lambda>v. []" "''NSE''" "''BULK''"
      "''2026-11-03''"]
    missing_keys_give_empty_field [of "[(''symbol'', PStr ''abc'')]" "\<lambda>v. []" "''NSE''" "''bulk''"
      "''2026-11-03''"]
  by (simp add: string_simps)

section \<open>The steps of \<^verbatim>\<open>main\<close>\<close>


lemma main_without_credentials:
  assumes "strip (getenv w ''TELEGRAM_BOT_TOKEN'' []) = [] \<or> strip (getenv w ''TELEGRAM_CHAT_ID'' []) = []"
  shows "main w = \<lparr> outcome = Returned 2, requests = [], stdout = [],
                    stderr = [''Set TELEGRAM_BOT_TOKEN and TELEGRAM_CHAT_ID first.''] \<rparr>"
  using assms by (auto simp: main_def Let_def)


lemma main_delivery:
  assumes "strip (getenv w ''TELEGRAM_BOT_TOKEN'' []) \<noteq> []"
    and "strip (getenv w ''TELEGRAM_CHAT_ID'' []) \<noteq> []"
    and "read_settings w = Inr (from_date, to_date, max_rows)"
    and "message_parts w from_date to_date max_rows = (parts, log)"
  shows "outcome (main w) =
           (case fst (send_telegram_message w (strip (getenv w ''TELEGRAM_BOT_TOKEN'' []))
                        (strip (getenv w ''TELEGRAM_CHAT_ID'' [])) (join nl parts) log) of
              Inl e \<Rightarrow> Raised e | Inr u \<Rightarrow> Returned 0)"
    and "requests (main w) =
           snd (send_telegram_message w (strip (getenv w ''TELEGRAM_BOT_TOKEN'' []))
                  (strip (getenv w ''TELEGRAM_CHAT_ID'' [])) (join nl parts) log)"
  using assms by (auto simp: main_def Let_def crashed_def split: prod.splits sum.splits)



lemma message_parts_no_warning:
  assumes "nse_block w from_date to_date [] = (Inr nse_rows, log1)"
    and "bse_block w from_date to_date log1 = (Inr bse_rows, log2)"
  shows "message_parts w from_date to_date max_rows =
    ([''SME block/bulk scan ('' @ isoformat w from_date @ '' to '' @ isoformat w to_date @ '')'', [],
      format_rows ''NSE'' nse_rows max_rows, [], format_rows ''BSE'' bse_rows max_rows], log2)"
  using assms by (simp add: message_parts_def Let_def)

section \<open>The universe resolvers when their source fails\<close>



subsection \<open>C2: a universe source that fails\<close>




subsection \<open>C3: which errors end the run\<close>




subsection \<open>C8: exit codes\<close>

text \<open>
  C8. If \<^verbatim>\<open>TELEGRAM_BOT_TOKEN\<close> or \<^verbatim>\<open>TELEGRAM_CHAT_ID\<close> is missing, \<^verbatim>\<open>main\<close> returns 2 and
  the run has made no request. If both are present and the run reaches the delivery
  with some message, and the delivery returns normally, \<^verbatim>\<open>main\<close> returns 0, whatever
  the two exchange blocks gave; in the witness both exchange sections are empty.
\<close>

theorem exit_codes:
  "(environ w ''TELEGRAM_BOT_TOKEN'' = None \<or> environ w ''TELEGRAM_CHAT_ID'' = None \<longrightarrow>
      outcome (main w) = Returned 2 \<and> requests (main w) = []) \<and>
   (token = strip (getenv w ''TELEGRAM_BOT_TOKEN'' []) \<and> token \<noteq> [] \<and>
    chat_id = strip (getenv w ''TELEGRAM_CHAT_ID'' []) \<and> chat_id \<noteq> [] \<and>
    read_settings w = Inr (from_date, to_date, max_rows) \<and>
    message_parts w from_date to_date max_rows = (parts, log) \<and>
    fst (send_telegram_message w token chat_id (join nl parts) log) = Inr () \<longrightarrow>
      outcome (main w) = Returned 0)"
proof (intro conjI impI)
  assume "environ w ''TELEGRAM_BOT_TOKEN'' = None \<or> environ w ''TELEGRAM_CHAT_ID'' = None"
  then have "strip (getenv w ''TELEGRAM_BOT_TOKEN'' []) = [] \<or> strip (getenv w ''TELEGRAM_CHAT_ID'' []) = []"
    by (auto simp: getenv_def strip_Nil)
  from main_without_credentials [OF this]
  show "outcome (main w) = Returned 2" and "requests (main w) = []"
    by simp_all
next
  assume a: "token = strip (getenv w ''TELEGRAM_BOT_TOKEN'' []) \<and> token \<noteq> [] \<and>
    chat_id = strip (getenv w ''TELEGRAM_CHAT_ID'' []) \<and> chat_id \<noteq> [] \<and>
    read_settings w = Inr (from_date, to_date, max_rows) \<and>
    message_parts w from_date to_date max_rows = (parts, log) \<and>
    fst (send_telegram_message w token chat_id (join nl parts) log) = Inr ()"
  then have "strip (getenv w ''TELEGRAM_BOT_TOKEN'' []) \<noteq> []"
    and "strip (getenv w ''TELEGRAM_CHAT_ID'' []) \<noteq> []"
    and "read_settings w = Inr (from_date, to_date, max_rows)"
    and "message_parts w from_date to_date max_rows = (parts, log)"
    by auto
  from main_delivery(1) [OF this] a show "outcome (main w) = Returned 0"
    by auto
qed

theorem exit_codes_witness:
  "environ world_no_token ''TELEGRAM_BOT_TOKEN'' = None \<and>
   outcome (main world_no_token) = Returned 2 \<and> requests (main world_no_token) = [] \<and>
   strip (getenv world_down ''TELEGRAM_BOT_TOKEN'' []) = ''T'' \<and>
   strip (getenv world_down ''TELEGRAM_CHAT_ID'' []) = ''C'' \<and>
   fst (message_parts world_down 739923 739923 20) =
     [''SME block/bulk scan (2026-11-03 to 2026-11-03)'', [],
      ''NSE'' @ nl @ ''- No SME deals found'', [],
      ''BSE'' @ nl @ ''- No SME deals found'',
      [], ''Warnings:'', ''- NSE fetch warning: down''] \<and>
   outcome (main world_down) = Returned 0"
proof -
  have e: "environ world_no_token ''TELEGRAM_BOT_TOKEN'' = None"
    by (simp add: world_no_token_def world_down_def)
  have t: "strip (getenv world_down ''TELEGRAM_BOT_TOKEN'' []) = ''T''"
    and c: "strip (getenv world_down ''TELEGRAM_CHAT_ID'' []) = ''C''"
    and rs: "read_settings world_down = Inr (739923, 739923, 20)"
    by (simp_all add: string_simps io_simps example_simps)
  have m: "fst (message_parts world_down 739923 739923 20) =
     [''SME block/bulk scan (2026-11-03 to 2026-11-03)'', [],
      ''NSE'' @ nl @ ''- No SME deals found'', [],
      ''BSE'' @ nl @ ''- No SME deals found'',
      [], ''Warnings:'', ''- NSE fetch warning: down'']"
    by (simp add: string_simps value_simps row_simps io_simps example_simps)
  have mp: "message_parts world_down 739923 739923 20
      = (fst (message_parts world_down 739923 739923 20), snd (message_parts world_down 739923 739923 20))"
    by simp
  have s: "fst (send_telegram_message world_down ''T'' ''C''
                  (join nl (fst (message_parts world_down 739923 739923 20)))
                  (snd (message_parts world_down 739923 739923 20))) = Inr ()"
    by (simp add: send_telegram_message_def Let_def world_down_def demo_loads_def dict_get_def)
  from exit_codes [where w = world_no_token] e
  have 1: "outcome (main world_no_token) = Returned 2 \<and> requests (main world_no_token) = []"
    by blast
  from exit_codes [where w = world_down and token = "''T''" and chat_id = "''C''"
      and from_date = 739923 and to_date = 739923 and max_rows = 20
      and parts = "fst (message_parts world_down 739923 739923 20)"
      and log = "snd (message_parts world_down 739923 739923 20)"] t c rs mp s
  have 2: "outcome (main world_down) = Returned 0"
    by simp
  from e 1 t c m 2 show ?thesis by simp
qed

subsection \<open>C9: \<^verbatim>\<open>send_telegram_message\<close>\<close>

text \<open>
  C9, as the claim states it, fails in both directions of its "if and only if". When the
  HTTP call cannot be completed the error raised is the one of \<^verbatim>\<open>urlopen\<close>, which names no
  API payload; and the function also raises when the call completes and no success flag
  is false: on a body that is not JSON (the \<^verbatim>\<open>ValueError\<close> of \<^verbatim>\<open>json.loads\<close>) and on JSON
  that is not an object (\<^verbatim>\<open>AttributeError\<close>).
\<close>

theorem send_telegram_message_counterexample:
  "urlopen_post world_telegram_down ''https://api.telegram.org/botT/sendMessage'' ''chat_id=C&text=hi&''
     = Inl (OSError ''timed out'') \<and>
   fst (send_telegram_message world_telegram_down ''T'' ''C'' ''hi'' []) = Inl (OSError ''timed out'') \<and>
   urlopen_post world_telegram_html ''https://api.telegram.org/botT/sendMessage'' ''chat_id=C&text=hi&''
     = Inr ''<html>'' \<and>
   fst (send_telegram_message world_telegram_html ''T'' ''C'' ''hi'' [])
     = Inl (ValueError ''Expecting value: line 1 column 1 (char 0)'') \<and>
   snd (send_telegram_message world_telegram_html ''T'' ''C'' ''hi'' [])
     = [POST ''https://api.telegram.org/botT/sendMessage'' ''chat_id=C&text=hi&'']"
  by (simp add: send_telegram_message_def Let_def example_simps)

text \<open>
  C9, amended. \<^verbatim>\<open>send_telegram_message\<close> makes one POST to the bot's \<^verbatim>\<open>sendMessage\<close> URL.
  It returns normally if and only if the call completes, the body is a JSON object and
  the object's \<^verbatim>\<open>ok\<close> value is truthy. When the call completes with a JSON object whose
  \<^verbatim>\<open>ok\<close> is missing or falsy, it raises \<^verbatim>\<open>RuntimeError\<close> with the text
  \<^verbatim>\<open>Telegram API error:\<close> followed by the payload. When the call cannot be completed,
  or the body is not JSON, the exception of that step is raised; when the JSON is not an
  object, an \<^verbatim>\<open>AttributeError\<close>.
\<close>

theorem send_telegram_message_spec:
  "url = ''https://api.telegram.org/bot'' @ token @ ''/sendMessage'' \<Longrightarrow>
   data = urlencode w [(''chat_id'', chat_id), (''text'', message)] \<Longrightarrow>
   (fst (send_telegram_message w token chat_id message log) = Inr ()
      \<longleftrightarrow> (\<exists>body p. urlopen_post w url data = Inr body \<and> json_loads w body = Inr (PDict p)
                    \<and> truthy (dict_get p ''ok''))) \<and>
   (\<forall>body p. urlopen_post w url data = Inr body \<and> json_loads w body = Inr (PDict p)
        \<and> \<not> truthy (dict_get p ''ok'')
      \<longrightarrow> fst (send_telegram_message w token chat_id message log)
            = Inl (RuntimeError (''Telegram API error: '' @ repr w (PDict p)))) \<and>
   (\<forall>e. urlopen_post w url data = Inl e
      \<longrightarrow> fst (send_telegram_message w token chat_id message log) = Inl e) \<and>
   (\<forall>body e. urlopen_post w url data = Inr body \<and> json_loads w body = Inl e
      \<longrightarrow> fst (send_telegram_message w token chat_id message log) = Inl e) \<and>
   (\<forall>body v. urlopen_post w url data = Inr body \<and> json_loads w body = Inr v \<and> (\<forall>p. v \<noteq> PDict p)
      \<longrightarrow> fst (send_telegram_message w token chat_id message log) = Inl (no_get v)) \<and>
   snd (send_telegram_message w token chat_id message log) = log @ [POST url data]"
  by (auto simp: send_telegram_message_def Let_def split: sum.splits pyval.splits)

theorem send_telegram_message_spec_witness:
  "fst (send_telegram_message world_down ''T'' ''C'' ''hi'' []) = Inr () \<and>
   fst (send_telegram_message world_telegram_refuses ''T'' ''C'' ''hi'' [])
     = Inl (RuntimeError ''Telegram API error: {...}'') \<and>
   fst (send_telegram_message world_telegram_down ''T'' ''C'' ''hi'' []) = Inl (OSError ''timed out'')"
proof -
  note u = world_down_def world_telegram_refuses_def world_telegram_down_def demo_loads_def
  have 1: "fst (send_telegram_message world_down ''T'' ''C'' ''hi'' []) = Inr ()"
    using send_telegram_message_spec [where w = world_down and token = "''T''" and chat_id = "''C''"
        and message = "''hi''" and log = "[]", OF refl refl]
    by (simp add: u dict_get_def)
  have 2: "fst (send_telegram_message world_telegram_refuses ''T'' ''C'' ''hi'' [])
     = Inl (RuntimeError ''Telegram API error: {...}'')"
    using send_telegram_message_spec [where w = world_telegram_refuses and token = "''T''"
        and chat_id = "''C''" and message = "''hi''" and log = "[]", OF refl refl]
    by (simp add: u dict_get_def)
  have 3: "fst (send_telegram_message world_telegram_down ''T'' ''C'' ''hi'' []) = Inl (OSError ''timed out'')"
    using send_telegram_message_spec [where w = world_telegram_down and token = "''T''"
        and chat_id = "''C''" and message = "''hi''" and log = "[]", OF refl refl]
    by (simp add: u)
  from 1 2 3 show ?thesis by simp
qed

subsection \<open>C10: credentials of white space\<close>

text \<open>
  C10. If \<^verbatim>\<open>TELEGRAM_BOT_TOKEN\<close> or \<^verbatim>\<open>TELEGRAM_CHAT_ID\<close> is set and consists only of white
  space, the value is empty once stripped, and \<^verbatim>\<open>main\<close> returns 2 with no request made,
  as it does for a missing value.
\<close>

theorem blank_credentials_exit_2:
  "(\<exists>s. environ w ''TELEGRAM_BOT_TOKEN'' = Some s \<and> (\<forall>c\<in>set s. isspace c))
   \<or> (\<exists>s. environ w ''TELEGRAM_CHAT_ID'' = Some s \<and> (\<forall>c\<in>set s. isspace c)) \<Longrightarrow>
   outcome (main w) = Returned 2 \<and> requests (main w) = [] \<and>
   stderr (main w) = [''Set TELEGRAM_BOT_TOKEN and TELEGRAM_CHAT_ID first.'']"
proof -
  assume "(\<exists>s. environ w ''TELEGRAM_BOT_TOKEN'' = Some s \<and> (\<forall>c\<in>set s. isspace c))
   \<or> (\<exists>s. environ w ''TELEGRAM_CHAT_ID'' = Some s \<and> (\<forall>c\<in>set s. isspace c))"
  then have "strip (getenv w ''TELEGRAM_BOT_TOKEN'' []) = [] \<or> strip (getenv w ''TELEGRAM_CHAT_ID'' []) = []"
    by (auto simp: getenv_def strip_all_space)
  from main_without_credentials [OF this] show ?thesis
    by simp
qed

theorem blank_credentials_exit_2_witness:
  "environ world_blank_token ''TELEGRAM_BOT_TOKEN'' = Some [CHR '' '', CHR 0x09] \<and>
   isspace CHR '' '' \<and> isspace (CHR 0x09) \<and>
   outcome (main world_blank_token) = Returned 2 \<and> requests (main world_blank_token) = []"
proof -
  have e: "environ world_blank_token ''TELEGRAM_BOT_TOKEN'' = Some [CHR '' '', CHR 0x09]"
    by (simp add: world_blank_token_def world_down_def)
  have s: "\<forall>c\<in>set [CHR '' '', CHR 0x09]. isspace c"
    by (simp add: isspace_def)
  from e s have "(\<exists>s. environ world_blank_token ''TELEGRAM_BOT_TOKEN'' = Some s \<and> (\<forall>c\<in>set s. isspace c))
   \<or> (\<exists>s. environ world_blank_token ''TELEGRAM_CHAT_ID'' = Some s \<and> (\<forall>c\<in>set s. isspace c))"
    by blast
  from blank_credentials_exit_2 [OF this] e s show ?thesis
    by simp
qed

end
